theory Spec2Isabelle
  imports Main
begin

section \<open>The invoice manager: data model\<close>

text \<open>
  The repository holds two Express servers over the same three JSON files
  (\<^verbatim>\<open>data/clients.json\<close>, \<^verbatim>\<open>data/invoices.json\<close>, \<^verbatim>\<open>data/users.json\<close>):
  \<^item> the plain server of \<^verbatim>\<open>src/express.js\<close> (no credentials, no owners); its handlers are
    the constants named \<open>express_\<dots>\<close> below;
  \<^item> the server of \<^verbatim>\<open>src/unnamed/part_001\<close> (bcrypt, JWT, validation, owners); its handlers
    carry the plain names (\<open>login\<close>, \<open>register\<close>, \<open>post_invoices\<close>, \<dots>).

  Modelling decisions, all visible in the definitions:
  \<^item> A JavaScript number that the handlers compute with is an \<open>int\<close> (exact arithmetic;
    the rounding of doubles is outside the model). A numeric field that may be missing
    or \<^verbatim>\<open>null\<close> in a stored object is a \<open>jsnum\<close>.
  \<^item> A file is the list of its records; every \<^verbatim>\<open>readJSONFile\<close> and
    \<^verbatim>\<open>writeJSONFile\<close> is appended to the store's \<open>io_log\<close>, so that "no data access"
    is a statement about the log. Files are assumed readable and writable (the
    \<^verbatim>\<open>catch\<close> branches of the source are not modelled).
  \<^item> Library code that is not in the repository (bcryptjs, jsonwebtoken,
    express-validator) enters as parameters.
\<close>

datatype jsnum = Undefined | Null | Num int

text \<open>\<^verbatim>\<open>ToNumber\<close> of ECMAScript on these values; \<open>None\<close> is \<^verbatim>\<open>NaN\<close>.\<close>

fun ToNumber :: "jsnum \<Rightarrow> int option" where
  "ToNumber Undefined = None"
| "ToNumber Null = Some 0"
| "ToNumber (Num n) = Some n"

text \<open>What \<^verbatim>\<open>JSON.stringify\<close> followed by \<^verbatim>\<open>JSON.parse\<close> makes of a number:
  \<^verbatim>\<open>NaN\<close> is written as \<^verbatim>\<open>null\<close>.\<close>

fun stored :: "int option \<Rightarrow> jsnum" where
  "stored None = Null"
| "stored (Some n) = Num n"

definition js_add :: "jsnum \<Rightarrow> jsnum \<Rightarrow> int option" where
  "js_add a b = (case (ToNumber a, ToNumber b) of (Some x, Some y) \<Rightarrow> Some (x + y) | _ \<Rightarrow> None)"

definition js_sub :: "jsnum \<Rightarrow> jsnum \<Rightarrow> int option" where
  "js_sub a b = (case (ToNumber a, ToNumber b) of (Some x, Some y) \<Rightarrow> Some (x - y) | _ \<Rightarrow> None)"

text \<open>\<^verbatim>\<open>x || 0\<close> for a numeric field: \<^verbatim>\<open>undefined\<close>, \<^verbatim>\<open>null\<close> and \<^verbatim>\<open>0\<close> are falsy.\<close>

fun or_zero :: "jsnum \<Rightarrow> int" where
  "or_zero Undefined = 0"
| "or_zero Null = 0"
| "or_zero (Num n) = n"

record user =
  u_id :: "int option"
  u_name :: string
  u_email :: string
  u_password :: string
  u_contactNumber :: string
  u_address :: string
  u_createdAt :: "nat option"

record client =
  c_id :: int
  c_userId :: "int option"
  c_name :: string
  c_email :: string
  c_address :: string
  invoiceCount :: jsnum
  totalPaid :: jsnum
  c_createdAt :: nat

record line_item =
  description :: string
  quantity :: int
  rate :: int

record invoice =
  inv_id :: int
  inv_userId :: "int option"
  clientId :: int
  freelancerName :: string
  freelancerEmail :: string
  freelancerAddress :: string
  taxPercent :: int
  lineItems :: "line_item list"
  taxAmount :: jsnum
  total :: jsnum
  inv_createdAt :: nat

datatype data_file = CLIENTS_FILE | INVOICES_FILE | USERS_FILE

datatype access = Read data_file | Write data_file

record store =
  clients :: "client list"
  invoices :: "invoice list"
  users :: "user list"
  io_log :: "access list"

definition logged :: "access \<Rightarrow> store \<Rightarrow> store" where
  "logged a st = st\<lparr>io_log := io_log st @ [a]\<rparr>"

text \<open>\<^verbatim>\<open>readJSONFile\<close> and \<^verbatim>\<open>writeJSONFile\<close>, one pair per file since the three files
  hold records of different types.\<close>

definition readClients :: "store \<Rightarrow> client list \<times> store" where
  "readClients st = (clients st, logged (Read CLIENTS_FILE) st)"

definition readInvoices :: "store \<Rightarrow> invoice list \<times> store" where
  "readInvoices st = (invoices st, logged (Read INVOICES_FILE) st)"

definition readUsers :: "store \<Rightarrow> user list \<times> store" where
  "readUsers st = (users st, logged (Read USERS_FILE) st)"

definition writeClients :: "client list \<Rightarrow> store \<Rightarrow> store" where
  "writeClients cs st = logged (Write CLIENTS_FILE) (st\<lparr>clients := cs\<rparr>)"

definition writeInvoices :: "invoice list \<Rightarrow> store \<Rightarrow> store" where
  "writeInvoices ivs st = logged (Write INVOICES_FILE) (st\<lparr>invoices := ivs\<rparr>)"

definition writeUsers :: "user list \<Rightarrow> store \<Rightarrow> store" where
  "writeUsers us st = logged (Write USERS_FILE) (st\<lparr>users := us\<rparr>)"

text \<open>
  \<^verbatim>\<open>const c = xs.find(P); if (c) { mutate c; write xs }\<close>: the found object is the first
  element of the array that satisfies \<open>P\<close>, and the mutation is seen through the array.
\<close>

fun update_first :: "('a \<Rightarrow> bool) \<Rightarrow> ('a \<Rightarrow> 'a) \<Rightarrow> 'a list \<Rightarrow> 'a list" where
  "update_first P f [] = []"
| "update_first P f (x # xs) = (if P x then f x # xs else x # update_first P f xs)"

text \<open>\<^verbatim>\<open>client.invoiceCount++; client.totalPaid += t\<close> and its reverse, as the file
  holds the client afterwards.\<close>

definition applyInvoiceCreated :: "jsnum \<Rightarrow> client \<Rightarrow> client" where
  "applyInvoiceCreated t c =
     c\<lparr>invoiceCount := stored (js_add (invoiceCount c) (Num 1)),
       totalPaid := stored (js_add (totalPaid c) t)\<rparr>"

definition applyInvoiceDeleted :: "jsnum \<Rightarrow> client \<Rightarrow> client" where
  "applyInvoiceDeleted t c =
     c\<lparr>invoiceCount := stored (js_sub (invoiceCount c) (Num 1)),
       totalPaid := stored (js_sub (totalPaid c) t)\<rparr>"

subsection \<open>Requests and responses\<close>

text \<open>
  A request body is the object \<^verbatim>\<open>req.body\<close>. The handlers build the new record as
  \<^verbatim>\<open>{ id: xs.length + 1, ...req.body, createdAt: \<dots>, userId: \<dots> }\<close>: a key \<^verbatim>\<open>id\<close> of
  the body overrides the computed id, the keys written after the spread cannot be
  overridden. The body's \<^verbatim>\<open>id\<close> is therefore a field of the model (\<open>None\<close>: the body
  has no such key). Keys of the body that no handler reads are copied into the stored
  record and are not modelled, apart from the invoice fields that the validation chain
  names. The fields are typed: an id is an integer, a text field a string, and
  \<^verbatim>\<open>total\<close> and \<^verbatim>\<open>taxAmount\<close>, which no validator looks at, are a number, \<^verbatim>\<open>null\<close> or
  missing. The path parameter \<^verbatim>\<open>:id\<close> is the integer that \<^verbatim>\<open>parseInt\<close> makes of it (a
  segment that gives \<^verbatim>\<open>NaN\<close> equals no id and behaves like an id that nobody carries).
\<close>

record client_body =
  cb_id :: "int option"
  cb_name :: string
  cb_email :: string
  cb_address :: string

record invoice_body =
  ib_id :: "int option"
  ib_clientId :: int
  ib_freelancerName :: string
  ib_freelancerEmail :: string
  ib_freelancerAddress :: string
  ib_taxPercent :: int
  ib_lineItems :: "line_item list"
  ib_taxAmount :: jsnum
  ib_total :: jsnum

record register_body =
  rb_name :: string
  rb_email :: string
  rb_password :: string
  rb_contactNumber :: string
  rb_address :: string

record login_body =
  lb_email :: string
  lb_password :: string

record summary =
  s_name :: string
  s_email :: string
  s_invoiceCount :: int
  s_totalPaid :: int

record stats =
  totalClients :: nat
  totalInvoices :: nat
  totalTax :: int
  totalRevenue :: int
  clientSummary :: "summary list"

text \<open>The JSON of a response, and the response with its HTTP status. \<open>Error m\<close> is
  \<^verbatim>\<open>{error: m}\<close>, \<open>Message b m\<close> is \<^verbatim>\<open>{success: b, message: m}\<close>, \<open>Success\<close> is
  \<^verbatim>\<open>{success: true}\<close>, \<open>ValidationFailed\<close> is \<^verbatim>\<open>{error: 'Validation failed', details: \<dots>}\<close>
  (the details are the library's), \<open>Session token id email name\<close> is
  \<^verbatim>\<open>{success: true, token, user: {id, email, name}}\<close>; the others carry their data.\<close>

datatype reply =
    Error string
  | Message bool string
  | Success
  | ValidationFailed
  | Clients "client list"
  | Invoices "invoice list"
  | ClientCreated client
  | InvoiceCreated invoice
  | Session string "int option" string string
  | Stats stats

type_synonym response = "nat \<times> reply"

section \<open>Library code, as parameters\<close>

text \<open>
  The token's payload, \<^verbatim>\<open>{ id: user.id, email: user.email }\<close>; \<^verbatim>\<open>req.user\<close> after
  \<^verbatim>\<open>authenticateToken\<close>.
\<close>

record payload =
  p_id :: "int option"
  p_email :: string

text \<open>
  The functions of bcryptjs, jsonwebtoken and express-validator that the server calls.
  \<open>bcrypt_hash password rounds salt\<close>: the library draws the salt itself, so it is an
  input here. \<open>jwt_sign payload secret expiresIn now\<close> and
  \<open>jwt_verify token secret now\<close> take the clock as an argument, in seconds.
\<close>

record lib =
  bcrypt_hash :: "string \<Rightarrow> nat \<Rightarrow> string \<Rightarrow> string"
  bcrypt_compare :: "string \<Rightarrow> string \<Rightarrow> bool"
  jwt_sign :: "payload \<Rightarrow> string \<Rightarrow> nat \<Rightarrow> nat \<Rightarrow> string"
  jwt_verify :: "string \<Rightarrow> string \<Rightarrow> nat \<Rightarrow> payload option"
  isEmail :: "string \<Rightarrow> bool"
  normalizeEmail :: "string \<Rightarrow> string"
  isMobilePhone :: "string \<Rightarrow> bool"
  escape :: "string \<Rightarrow> string"
  trim :: "string \<Rightarrow> string"

text \<open>\<^verbatim>\<open>{ expiresIn: '24h' }\<close>, in seconds.\<close>

definition expiresIn_24h :: nat where
  "expiresIn_24h = 24 * 60 * 60"

text \<open>\<^verbatim>\<open>process.env.JWT_SECRET || 'fallback-secret-change-in-production'\<close>: an unset or
  empty variable gives the fallback.\<close>

definition JWT_SECRET :: "string option \<Rightarrow> string" where
  "JWT_SECRET env =
     (case env of
        None \<Rightarrow> ''fallback-secret-change-in-production''
      | Some s \<Rightarrow> if s = [] then ''fallback-secret-change-in-production'' else s)"

section \<open>The server with owners (part\_001)\<close>

subsection \<open>Middleware\<close>

text \<open>\<^verbatim>\<open>String.prototype.split\<close> on a one-character separator.\<close>

fun split_on :: "char \<Rightarrow> string \<Rightarrow> string list" where
  "split_on c [] = [[]]"
| "split_on c (x # xs) =
     (if x = c then [] # split_on c xs
      else (case split_on c xs of [] \<Rightarrow> [[x]] | w # ws \<Rightarrow> (x # w) # ws))"

text \<open>\<^verbatim>\<open>authHeader && authHeader.split(' ')[1]\<close>; \<open>None\<close> is \<^verbatim>\<open>undefined\<close>, and an empty
  header is its own (falsy) result.\<close>

definition header_token :: "string option \<Rightarrow> string option" where
  "header_token authHeader =
     (case authHeader of
        None \<Rightarrow> None
      | Some h \<Rightarrow>
          if h = [] then Some []
          else (case split_on CHR '' '' h of _ # t # _ \<Rightarrow> Some t | _ \<Rightarrow> None))"

text \<open>\<^verbatim>\<open>authenticateToken\<close>, lines 127 to 142: \<open>Inl\<close> is the response that ends the
  request, \<open>Inr\<close> the \<^verbatim>\<open>req.user\<close> with which \<^verbatim>\<open>next()\<close> is called.\<close>

definition authenticateToken :: "lib \<Rightarrow> string \<Rightarrow> nat \<Rightarrow> string option \<Rightarrow> response + payload" where
  "authenticateToken L secret now authHeader =
     (case header_token authHeader of
        None \<Rightarrow> Inl (401, Error ''Access token required'')
      | Some token \<Rightarrow>
          if token = [] then Inl (401, Error ''Access token required'')
          else (case jwt_verify L token secret now of
                  None \<Rightarrow> Inl (403, Error ''Invalid or expired token'')
                | Some user \<Rightarrow> Inr user))"

text \<open>
  The validation chains, lines 145 to 158 and the inline ones of login and register. A
  chain runs left to right: a sanitizer replaces the field, a validator looks at the
  value the sanitizers before it left. \<open>valid_\<dots>\<close> is "\<^verbatim>\<open>validationResult(req)\<close> is
  empty", \<open>sanitized_\<dots>\<close> the body the handler sees.
\<close>

definition isLength :: "nat \<Rightarrow> nat \<Rightarrow> string \<Rightarrow> bool" where
  "isLength lo hi s = (lo \<le> length s \<and> length s \<le> hi)"

definition valid_client :: "lib \<Rightarrow> client_body \<Rightarrow> bool" where
  "valid_client L b =
     (isLength 2 100 (trim L (cb_name b)) \<and> isEmail L (cb_email b) \<and>
      isLength 5 500 (trim L (cb_address b)))"

definition sanitized_client :: "lib \<Rightarrow> client_body \<Rightarrow> client_body" where
  "sanitized_client L b =
     b\<lparr>cb_name := escape L (trim L (cb_name b)),
       cb_email := normalizeEmail L (cb_email b),
       cb_address := escape L (trim L (cb_address b))\<rparr>"

definition valid_invoice :: "lib \<Rightarrow> invoice_body \<Rightarrow> bool" where
  "valid_invoice L b =
     (isLength 2 100 (trim L (ib_freelancerName b)) \<and> isEmail L (ib_freelancerEmail b) \<and>
      isLength 5 500 (trim L (ib_freelancerAddress b)) \<and> 1 \<le> ib_clientId b \<and>
      0 \<le> ib_taxPercent b \<and> ib_taxPercent b \<le> 100 \<and> 1 \<le> length (ib_lineItems b))"

definition sanitized_invoice :: "lib \<Rightarrow> invoice_body \<Rightarrow> invoice_body" where
  "sanitized_invoice L b =
     b\<lparr>ib_freelancerName := escape L (trim L (ib_freelancerName b)),
       ib_freelancerEmail := normalizeEmail L (ib_freelancerEmail b),
       ib_freelancerAddress := escape L (trim L (ib_freelancerAddress b))\<rparr>"

definition valid_login :: "lib \<Rightarrow> login_body \<Rightarrow> bool" where
  "valid_login L b = (isEmail L (lb_email b) \<and> 6 \<le> length (lb_password b))"

definition sanitized_login :: "lib \<Rightarrow> login_body \<Rightarrow> login_body" where
  "sanitized_login L b = b\<lparr>lb_email := normalizeEmail L (lb_email b)\<rparr>"

definition valid_register :: "lib \<Rightarrow> register_body \<Rightarrow> bool" where
  "valid_register L b =
     (isLength 2 100 (trim L (rb_name b)) \<and> isEmail L (rb_email b) \<and>
      6 \<le> length (rb_password b) \<and> isMobilePhone L (rb_contactNumber b) \<and>
      isLength 5 500 (trim L (rb_address b)))"

definition sanitized_register :: "lib \<Rightarrow> register_body \<Rightarrow> register_body" where
  "sanitized_register L b =
     b\<lparr>rb_name := escape L (trim L (rb_name b)),
       rb_email := normalizeEmail L (rb_email b),
       rb_address := escape L (trim L (rb_address b))\<rparr>"

subsection \<open>Authentication routes\<close>

text \<open>The handler of \<^verbatim>\<open>POST /api/login\<close>, lines 176 to 210.\<close>

definition login :: "lib \<Rightarrow> string \<Rightarrow> login_body \<Rightarrow> nat \<Rightarrow> store \<Rightarrow> response \<times> store" where
  "login L secret b now st =
     (let (us, st1) = readUsers st
      in case find (\<lambda>u. u_email u = lb_email b) us of
           None \<Rightarrow> ((401, Error ''Invalid credentials''), st1)
         | Some u \<Rightarrow>
             if \<not> bcrypt_compare L (lb_password b) (u_password u)
             then ((401, Error ''Invalid credentials''), st1)
             else ((200, Session (jwt_sign L \<lparr>p_id = u_id u, p_email = u_email u\<rparr> secret expiresIn_24h now)
                           (u_id u) (u_email u) (u_name u)), st1))"

definition post_api_login :: "lib \<Rightarrow> string \<Rightarrow> login_body \<Rightarrow> nat \<Rightarrow> store \<Rightarrow> response \<times> store" where
  "post_api_login L secret b now st =
     (if \<not> valid_login L b then ((400, ValidationFailed), st)
      else login L secret (sanitized_login L b) now st)"

text \<open>The handler of \<^verbatim>\<open>POST /api/register\<close>, lines 218 to 262.\<close>

definition newUser :: "lib \<Rightarrow> register_body \<Rightarrow> string \<Rightarrow> nat \<Rightarrow> user list \<Rightarrow> user" where
  "newUser L b salt now us =
     \<lparr>u_id = Some (int (length us) + 1),
      u_name = rb_name b,
      u_email = rb_email b,
      u_password = bcrypt_hash L (rb_password b) 10 salt,
      u_contactNumber = rb_contactNumber b,
      u_address = rb_address b,
      u_createdAt = Some now\<rparr>"

definition register :: "lib \<Rightarrow> string \<Rightarrow> register_body \<Rightarrow> string \<Rightarrow> nat \<Rightarrow> store \<Rightarrow> response \<times> store" where
  "register L secret b salt now st =
     (let (us, st1) = readUsers st
      in case find (\<lambda>u. u_email u = rb_email b) us of
           Some existingUser \<Rightarrow> ((409, Error ''User already exists''), st1)
         | None \<Rightarrow>
             (let u = newUser L b salt now us;
                  st2 = writeUsers (us @ [u]) st1
              in ((201, Session (jwt_sign L \<lparr>p_id = u_id u, p_email = u_email u\<rparr> secret expiresIn_24h now)
                           (u_id u) (u_email u) (u_name u)), st2)))"

definition post_api_register ::
  "lib \<Rightarrow> string \<Rightarrow> register_body \<Rightarrow> string \<Rightarrow> nat \<Rightarrow> store \<Rightarrow> response \<times> store" where
  "post_api_register L secret b salt now st =
     (if \<not> valid_register L b then ((400, ValidationFailed), st)
      else register L secret (sanitized_register L b) salt now st)"

subsection \<open>Client routes\<close>

text \<open>\<^verbatim>\<open>GET /api/clients\<close>, lines 270 to 277.\<close>

definition get_clients :: "store \<Rightarrow> response \<times> store" where
  "get_clients st = (let (cls, st1) = readClients st in ((200, Clients cls), st1))"

text \<open>\<^verbatim>\<open>POST /api/clients\<close>, lines 279 to 299.\<close>

definition newClient :: "int option \<Rightarrow> client_body \<Rightarrow> nat \<Rightarrow> client list \<Rightarrow> client" where
  "newClient uid b now cls =
     \<lparr>c_id = (case cb_id b of None \<Rightarrow> int (length cls) + 1 | Some i \<Rightarrow> i),
      c_userId = uid,
      c_name = cb_name b,
      c_email = cb_email b,
      c_address = cb_address b,
      invoiceCount = Num 0,
      totalPaid = Num 0,
      c_createdAt = now\<rparr>"

definition post_clients :: "int option \<Rightarrow> client_body \<Rightarrow> nat \<Rightarrow> store \<Rightarrow> response \<times> store" where
  "post_clients uid b now st =
     (let (cls, st1) = readClients st;
          c = newClient uid b now cls;
          st2 = writeClients (cls @ [c]) st1
      in ((201, ClientCreated c), st2))"

text \<open>\<^verbatim>\<open>DELETE /api/clients/:id\<close>, lines 301 to 318.\<close>

definition delete_client :: "int option \<Rightarrow> int \<Rightarrow> store \<Rightarrow> response \<times> store" where
  "delete_client uid k st =
     (let (cls, st1) = readClients st
      in if \<not> list_ex (\<lambda>c. c_id c = k \<and> c_userId c = uid) cls
         then ((404, Error ''Client not found''), st1)
         else ((200, Success), writeClients (filter (\<lambda>c. c_id c \<noteq> k) cls) st1))"

subsection \<open>Invoice routes\<close>

text \<open>\<^verbatim>\<open>GET /api/invoices\<close>, lines 321 to 329.\<close>

definition get_invoices :: "int option \<Rightarrow> store \<Rightarrow> response \<times> store" where
  "get_invoices uid st =
     (let (invs, st1) = readInvoices st
      in ((200, Invoices (filter (\<lambda>i. inv_userId i = uid) invs)), st1))"

text \<open>\<^verbatim>\<open>app.post('/api/invoices', \<dots>)\<close>, lines 331 to 359, after authentication and
  validation: \<open>uid\<close> is \<^verbatim>\<open>req.user.id\<close>, \<open>now\<close> the clock.\<close>

definition newInvoice :: "int option \<Rightarrow> invoice_body \<Rightarrow> nat \<Rightarrow> invoice list \<Rightarrow> invoice" where
  "newInvoice uid b now invs =
     \<lparr>inv_id = (case ib_id b of None \<Rightarrow> int (length invs) + 1 | Some i \<Rightarrow> i),
      inv_userId = uid,
      clientId = ib_clientId b,
      freelancerName = ib_freelancerName b,
      freelancerEmail = ib_freelancerEmail b,
      freelancerAddress = ib_freelancerAddress b,
      taxPercent = ib_taxPercent b,
      lineItems = ib_lineItems b,
      taxAmount = ib_taxAmount b,
      total = ib_total b,
      inv_createdAt = now\<rparr>"

definition post_invoices :: "int option \<Rightarrow> invoice_body \<Rightarrow> nat \<Rightarrow> store \<Rightarrow> response \<times> store" where
  "post_invoices uid b now st =
     (let (invs, st1) = readInvoices st;
          (cls, st2) = readClients st1;
          iv = newInvoice uid b now invs;
          st3 = writeInvoices (invs @ [iv]) st2;
          P = (\<lambda>c. c_id c = clientId iv \<and> c_userId c = uid);
          st4 = (case find P cls of
                   None \<Rightarrow> st3
                 | Some c \<Rightarrow> writeClients (update_first P (applyInvoiceCreated (total iv)) cls) st3)
      in ((201, InvoiceCreated iv), st4))"

text \<open>\<^verbatim>\<open>app.delete('/api/invoices/:id', \<dots>)\<close>, lines 361 to 387; \<open>k\<close> is
  \<^verbatim>\<open>parseInt(req.params.id)\<close>.\<close>

definition delete_invoice :: "int option \<Rightarrow> int \<Rightarrow> store \<Rightarrow> response \<times> store" where
  "delete_invoice uid k st =
     (let (invs, st1) = readInvoices st;
          (cls, st2) = readClients st1
      in case find (\<lambda>i. inv_id i = k \<and> inv_userId i = uid) invs of
           None \<Rightarrow> ((404, Error ''Invoice not found''), st2)
         | Some iv \<Rightarrow>
             (let Q = (\<lambda>c. c_id c = clientId iv);
                  st3 = (case find Q cls of
                           None \<Rightarrow> st2
                         | Some c \<Rightarrow> writeClients (update_first Q (applyInvoiceDeleted (total iv)) cls) st2);
                  st4 = writeInvoices (filter (\<lambda>i. inv_id i \<noteq> k) invs) st3
              in ((200, Success), st4)))"

subsection \<open>Dashboard\<close>

text \<open>\<^verbatim>\<open>GET /api/dashboard\<close>, lines 390 to 415. \<^verbatim>\<open>xs.reduce((sum, x) => sum + (f(x) || 0), 0)\<close>
  is a left fold.\<close>

definition summary_of :: "client \<Rightarrow> summary" where
  "summary_of c =
     \<lparr>s_name = c_name c,
      s_email = c_email c,
      s_invoiceCount = or_zero (invoiceCount c),
      s_totalPaid = or_zero (totalPaid c)\<rparr>"

definition stats_of :: "client list \<Rightarrow> invoice list \<Rightarrow> stats" where
  "stats_of cls invs =
     \<lparr>totalClients = length cls,
      totalInvoices = length invs,
      totalTax = foldl (\<lambda>sum i. sum + or_zero (taxAmount i)) 0 invs,
      totalRevenue = foldl (\<lambda>sum i. sum + or_zero (total i)) 0 invs,
      clientSummary = map summary_of cls\<rparr>"

definition dashboard :: "int option \<Rightarrow> store \<Rightarrow> response \<times> store" where
  "dashboard uid st =
     (let (cls, st1) = readClients st;
          (invs, st2) = readInvoices st1;
          userClients = filter (\<lambda>c. c_userId c = uid) cls;
          userInvoices = filter (\<lambda>i. inv_userId i = uid) invs
      in ((200, Stats (stats_of userClients userInvoices)), st2))"

subsection \<open>The protected routes behind the middleware\<close>

text \<open>The seven requests to \<^verbatim>\<open>/api/clients\<close>, \<^verbatim>\<open>/api/invoices\<close> and \<^verbatim>\<open>/api/dashboard\<close>
  for which a route is registered.\<close>

datatype request =
    GET_clients
  | POST_clients client_body
  | DELETE_clients int
  | GET_invoices
  | POST_invoices invoice_body
  | DELETE_invoices int
  | GET_dashboard

text \<open>
  What the routes do for a verified user: the handler, after the validation chain and
  \<^verbatim>\<open>handleValidationErrors\<close> on the two \<^verbatim>\<open>POST\<close> routes.
\<close>

definition route :: "lib \<Rightarrow> nat \<Rightarrow> payload \<Rightarrow> request \<Rightarrow> store \<Rightarrow> response \<times> store" where
  "route L now user req st =
     (case req of
        GET_clients \<Rightarrow> get_clients st
      | POST_clients b \<Rightarrow>
          if \<not> valid_client L b then ((400, ValidationFailed), st)
          else post_clients (p_id user) (sanitized_client L b) now st
      | DELETE_clients k \<Rightarrow> delete_client (p_id user) k st
      | GET_invoices \<Rightarrow> get_invoices (p_id user) st
      | POST_invoices b \<Rightarrow>
          if \<not> valid_invoice L b then ((400, ValidationFailed), st)
          else post_invoices (p_id user) (sanitized_invoice L b) now st
      | DELETE_invoices k \<Rightarrow> delete_invoice (p_id user) k st
      | GET_dashboard \<Rightarrow> dashboard (p_id user) st)"

text \<open>
  The application as Express runs it: the layers in the order of their registration
  (lines 265 to 415), each of which either ends the request with a response or calls
  \<^verbatim>\<open>next()\<close>, after which the next layer that matches the request runs. Lines 265 to 267
  mount \<^verbatim>\<open>authenticateToken\<close> on three path prefixes; a mounted middleware matches every
  request under its prefix, a route matches its method and path. \<open>Next user st\<close> carries
  \<^verbatim>\<open>req.user\<close> along. (The layers registered before, lines 20 to 65 and the two
  authentication routes, touch no data file on these requests and are not part of the
  list.)
\<close>

datatype mount = Api_clients | Api_invoices | Api_dashboard

fun mount_of :: "request \<Rightarrow> mount" where
  "mount_of GET_clients = Api_clients"
| "mount_of (POST_clients b) = Api_clients"
| "mount_of (DELETE_clients k) = Api_clients"
| "mount_of GET_invoices = Api_invoices"
| "mount_of (POST_invoices b) = Api_invoices"
| "mount_of (DELETE_invoices k) = Api_invoices"
| "mount_of GET_dashboard = Api_dashboard"

datatype outcome = Ended response store | Next "payload option" store

type_synonym layer = "request \<Rightarrow> string option \<Rightarrow> payload option \<Rightarrow> store \<Rightarrow> outcome"

definition ended :: "response \<times> store \<Rightarrow> outcome" where
  "ended x = Ended (fst x) (snd x)"

text \<open>\<^verbatim>\<open>app.use(prefix, authenticateToken)\<close>.\<close>

definition use_authenticateToken :: "lib \<Rightarrow> string \<Rightarrow> nat \<Rightarrow> mount \<Rightarrow> layer" where
  "use_authenticateToken L secret now m req authHeader user st =
     (if mount_of req \<noteq> m then Next user st
      else (case authenticateToken L secret now authHeader of
              Inl rejected \<Rightarrow> Ended rejected st
            | Inr u \<Rightarrow> Next (Some u) st))"

text \<open>
  The routes. A handler reads \<^verbatim>\<open>req.user.id\<close>; were it to run without \<^verbatim>\<open>req.user\<close>, the
  read would throw inside the handler's \<^verbatim>\<open>try\<close>, at the first place that evaluates it,
  and the \<^verbatim>\<open>catch\<close> would answer 500: that is the \<open>None\<close> branch of each route below.
\<close>

definition failed :: "string \<Rightarrow> store \<Rightarrow> response \<times> store" where
  "failed m st = ((500, Error m), st)"

definition on_get_clients :: layer where
  "on_get_clients req authHeader user st =
     (case req of GET_clients \<Rightarrow> ended (get_clients st) | _ \<Rightarrow> Next user st)"

definition on_post_clients :: "lib \<Rightarrow> nat \<Rightarrow> layer" where
  "on_post_clients L now req authHeader user st =
     (case req of
        POST_clients b \<Rightarrow>
          if \<not> valid_client L b then Ended (400, ValidationFailed) st
          else (case user of
                  Some u \<Rightarrow> ended (post_clients (p_id u) (sanitized_client L b) now st)
                | None \<Rightarrow> ended (failed ''Failed to create client'' (snd (readClients st))))
      | _ \<Rightarrow> Next user st)"

definition on_delete_clients :: layer where
  "on_delete_clients req authHeader user st =
     (case req of
        DELETE_clients k \<Rightarrow>
          (case user of
             Some u \<Rightarrow> ended (delete_client (p_id u) k st)
           | None \<Rightarrow>
               (let (cls, st1) = readClients st
                in if list_ex (\<lambda>c. c_id c = k) cls
                   then ended (failed ''Failed to delete client'' st1)
                   else Ended (404, Error ''Client not found'') st1))
      | _ \<Rightarrow> Next user st)"

definition on_get_invoices :: layer where
  "on_get_invoices req authHeader user st =
     (case req of
        GET_invoices \<Rightarrow>
          (case user of
             Some u \<Rightarrow> ended (get_invoices (p_id u) st)
           | None \<Rightarrow>
               (let (invs, st1) = readInvoices st
                in if invs = [] then Ended (200, Invoices []) st1
                   else ended (failed ''Failed to fetch invoices'' st1)))
      | _ \<Rightarrow> Next user st)"

definition on_post_invoices :: "lib \<Rightarrow> nat \<Rightarrow> layer" where
  "on_post_invoices L now req authHeader user st =
     (case req of
        POST_invoices b \<Rightarrow>
          if \<not> valid_invoice L b then Ended (400, ValidationFailed) st
          else (case user of
                  Some u \<Rightarrow> ended (post_invoices (p_id u) (sanitized_invoice L b) now st)
                | None \<Rightarrow>
                    ended (failed ''Failed to create invoice''
                             (snd (readClients (snd (readInvoices st))))))
      | _ \<Rightarrow> Next user st)"

definition on_delete_invoices :: layer where
  "on_delete_invoices req authHeader user st =
     (case req of
        DELETE_invoices k \<Rightarrow>
          (case user of
             Some u \<Rightarrow> ended (delete_invoice (p_id u) k st)
           | None \<Rightarrow>
               (let (invs, st1) = readInvoices st;
                    (cls, st2) = readClients st1
                in if list_ex (\<lambda>i. inv_id i = k) invs
                   then ended (failed ''Failed to delete invoice'' st2)
                   else Ended (404, Error ''Invoice not found'') st2))
      | _ \<Rightarrow> Next user st)"

definition on_get_dashboard :: layer where
  "on_get_dashboard req authHeader user st =
     (case req of
        GET_dashboard \<Rightarrow>
          (case user of
             Some u \<Rightarrow> ended (dashboard (p_id u) st)
           | None \<Rightarrow>
               (let (cls, st1) = readClients st;
                    (invs, st2) = readInvoices st1
                in if cls = [] \<and> invs = [] then Ended (200, Stats (stats_of [] [])) st2
                   else ended (failed ''Failed to fetch dashboard data'' st2)))
      | _ \<Rightarrow> Next user st)"

definition app :: "lib \<Rightarrow> string \<Rightarrow> nat \<Rightarrow> layer list" where
  "app L secret now =
     [use_authenticateToken L secret now Api_clients,
      use_authenticateToken L secret now Api_invoices,
      use_authenticateToken L secret now Api_dashboard,
      on_get_clients,
      on_post_clients L now,
      on_delete_clients,
      on_get_invoices,
      on_post_invoices L now,
      on_delete_invoices,
      on_get_dashboard]"

text \<open>Running a request through the layers; the last layer of the source (line 432)
  answers 404 to what no route took.\<close>

fun serve :: "layer list \<Rightarrow> request \<Rightarrow> string option \<Rightarrow> payload option \<Rightarrow> store \<Rightarrow> response \<times> store" where
  "serve [] req authHeader user st = ((404, Error ''Route not found''), st)"
| "serve (l # ls) req authHeader user st =
     (case l req authHeader user st of
        Ended r st' \<Rightarrow> (r, st')
      | Next user' st' \<Rightarrow> serve ls req authHeader user' st')"

text \<open>A request arrives with its \<^verbatim>\<open>Authorization\<close> header and no \<^verbatim>\<open>req.user\<close>.\<close>

definition api :: "lib \<Rightarrow> string \<Rightarrow> nat \<Rightarrow> string option \<Rightarrow> request \<Rightarrow> store \<Rightarrow> response \<times> store" where
  "api L secret now authHeader req st = serve (app L secret now) req authHeader None st"

section \<open>The plain server (express.js)\<close>

subsection \<open>Authentication routes\<close>

text \<open>\<^verbatim>\<open>POST /api/login\<close>, lines 59 to 69: the stored password is compared with the one
  sent.\<close>

definition express_login :: "login_body \<Rightarrow> store \<Rightarrow> response \<times> store" where
  "express_login b st =
     (let (us, st1) = readUsers st
      in case find (\<lambda>u. u_email u = lb_email b \<and> u_password u = lb_password b) us of
           Some u \<Rightarrow> ((200, Message True ''Login successful''), st1)
         | None \<Rightarrow> ((401, Message False ''Invalid credentials''), st1))"

text \<open>\<^verbatim>\<open>POST /api/register\<close>, lines 71 to 85: the pushed object has neither an id nor a
  creation time, and its password is the one sent.\<close>

definition express_newUser :: "register_body \<Rightarrow> user" where
  "express_newUser b =
     \<lparr>u_id = None,
      u_name = rb_name b,
      u_email = rb_email b,
      u_password = rb_password b,
      u_contactNumber = rb_contactNumber b,
      u_address = rb_address b,
      u_createdAt = None\<rparr>"

definition express_register :: "register_body \<Rightarrow> store \<Rightarrow> response \<times> store" where
  "express_register b st =
     (let (us, st1) = readUsers st
      in case find (\<lambda>u. u_email u = rb_email b) us of
           Some existingUser \<Rightarrow> ((400, Message False ''User already exists''), st1)
         | None \<Rightarrow>
             ((200, Message True ''Registration successful''),
              writeUsers (us @ [express_newUser b]) st1))"

subsection \<open>Client routes\<close>

text \<open>Lines 88 to 117.\<close>

definition express_get_clients :: "store \<Rightarrow> response \<times> store" where
  "express_get_clients st = (let (cls, st1) = readClients st in ((200, Clients cls), st1))"

definition express_post_clients :: "client_body \<Rightarrow> nat \<Rightarrow> store \<Rightarrow> response \<times> store" where
  "express_post_clients b now st =
     (let (cls, st1) = readClients st;
          c = newClient None b now cls;
          st2 = writeClients (cls @ [c]) st1
      in ((200, ClientCreated c), st2))"

definition express_delete_client :: "int \<Rightarrow> store \<Rightarrow> response \<times> store" where
  "express_delete_client k st =
     (let (cls, st1) = readClients st
      in ((200, Success), writeClients (filter (\<lambda>c. c_id c \<noteq> k) cls) st1))"

subsection \<open>Invoice routes\<close>

text \<open>\<^verbatim>\<open>GET /api/invoices\<close>, lines 120 to 123.\<close>

definition express_get_invoices :: "store \<Rightarrow> response \<times> store" where
  "express_get_invoices st = (let (invs, st1) = readInvoices st in ((200, Invoices invs), st1))"

text \<open>\<^verbatim>\<open>app.post('/api/invoices', \<dots>)\<close>, lines 125 to 147: no owner is recorded, the
  client is looked up by id alone.\<close>

definition express_newInvoice :: "invoice_body \<Rightarrow> nat \<Rightarrow> invoice list \<Rightarrow> invoice" where
  "express_newInvoice b now invs =
     \<lparr>inv_id = (case ib_id b of None \<Rightarrow> int (length invs) + 1 | Some i \<Rightarrow> i),
      inv_userId = None,
      clientId = ib_clientId b,
      freelancerName = ib_freelancerName b,
      freelancerEmail = ib_freelancerEmail b,
      freelancerAddress = ib_freelancerAddress b,
      taxPercent = ib_taxPercent b,
      lineItems = ib_lineItems b,
      taxAmount = ib_taxAmount b,
      total = ib_total b,
      inv_createdAt = now\<rparr>"

definition express_post_invoices :: "invoice_body \<Rightarrow> nat \<Rightarrow> store \<Rightarrow> response \<times> store" where
  "express_post_invoices b now st =
     (let (invs, st1) = readInvoices st;
          (cls, st2) = readClients st1;
          iv = express_newInvoice b now invs;
          st3 = writeInvoices (invs @ [iv]) st2;
          P = (\<lambda>c. c_id c = clientId iv);
          st4 = (case find P cls of
                   None \<Rightarrow> st3
                 | Some c \<Rightarrow> writeClients (update_first P (applyInvoiceCreated (total iv)) cls) st3)
      in ((200, InvoiceCreated iv), st4))"

text \<open>\<^verbatim>\<open>app.delete('/api/invoices/:id', \<dots>)\<close>, lines 149 to 169: the invoices file is
  rewritten whether or not an invoice was found.\<close>

definition express_delete_invoice :: "int \<Rightarrow> store \<Rightarrow> response \<times> store" where
  "express_delete_invoice k st =
     (let (invs, st1) = readInvoices st;
          (cls, st2) = readClients st1;
          st3 = (case find (\<lambda>i. inv_id i = k) invs of
                   None \<Rightarrow> st2
                 | Some iv \<Rightarrow>
                     (let Q = (\<lambda>c. c_id c = clientId iv)
                      in case find Q cls of
                           None \<Rightarrow> st2
                         | Some c \<Rightarrow> writeClients (update_first Q (applyInvoiceDeleted (total iv)) cls) st2));
          st4 = writeInvoices (filter (\<lambda>i. inv_id i \<noteq> k) invs) st3
      in ((200, Success), st4))"

subsection \<open>Dashboard\<close>

text \<open>\<^verbatim>\<open>GET /api/dashboard\<close>, lines 172 to 190: the statistics of all clients and all
  invoices.\<close>

definition express_dashboard :: "store \<Rightarrow> response \<times> store" where
  "express_dashboard st =
     (let (cls, st1) = readClients st;
          (invs, st2) = readInvoices st1
      in ((200, Stats (stats_of cls invs)), st2))"

subsection \<open>The routes\<close>

text \<open>The same seven routes; no middleware looks at the request's
  \<^verbatim>\<open>Authorization\<close> header, which the model passes along to show that it is ignored.\<close>

definition express_api :: "nat \<Rightarrow> string option \<Rightarrow> request \<Rightarrow> store \<Rightarrow> response \<times> store" where
  "express_api now authHeader req st =
     (case req of
        GET_clients \<Rightarrow> express_get_clients st
      | POST_clients b \<Rightarrow> express_post_clients b now st
      | DELETE_clients k \<Rightarrow> express_delete_client k st
      | GET_invoices \<Rightarrow> express_get_invoices st
      | POST_invoices b \<Rightarrow> express_post_invoices b now st
      | DELETE_invoices k \<Rightarrow> express_delete_invoice k st
      | GET_dashboard \<Rightarrow> express_dashboard st)"

section \<open>The session credential\<close>

text \<open>
  Modelled from the spec: \<^verbatim>\<open>jwt.sign\<close> and \<^verbatim>\<open>jwt.verify\<close> of the package jsonwebtoken,
  which the server calls and the repository does not contain. Section 4.3 of the
  specification: \<^emph>\<open>issue\<close> "produces a signed token embedding subject identity and an
  absolute expiry", signed with a symmetric secret; \<^emph>\<open>verify\<close> fails "when the signature
  is invalid, the token is malformed, or the current time is past the embedded expiry",
  and is stateless. The wire format and the signature algorithm are parameters: a
  \<open>codec\<close> writes a credential as a string and reads it back (\<open>None\<close>: malformed), and
  computes the signature of a payload and an expiry under a secret.
\<close>

record credential =
  cr_subject :: payload
  cr_expiry :: nat
  cr_signature :: string

record codec =
  encode :: "credential \<Rightarrow> string"
  decode :: "string \<Rightarrow> credential option"
  mac :: "string \<Rightarrow> payload \<Rightarrow> nat \<Rightarrow> string"

definition issued :: "codec \<Rightarrow> payload \<Rightarrow> string \<Rightarrow> nat \<Rightarrow> nat \<Rightarrow> credential" where
  "issued C p secret expiresIn now =
     \<lparr>cr_subject = p, cr_expiry = now + expiresIn,
      cr_signature = mac C secret p (now + expiresIn)\<rparr>"

definition issue :: "codec \<Rightarrow> payload \<Rightarrow> string \<Rightarrow> nat \<Rightarrow> nat \<Rightarrow> string" where
  "issue C p secret expiresIn now = encode C (issued C p secret expiresIn now)"

definition verify :: "codec \<Rightarrow> string \<Rightarrow> string \<Rightarrow> nat \<Rightarrow> payload option" where
  "verify C token secret now =
     (case decode C token of
        None \<Rightarrow> None
      | Some c \<Rightarrow>
          if cr_signature c \<noteq> mac C secret (cr_subject c) (cr_expiry c) then None
          else if cr_expiry c < now then None
          else Some (cr_subject c))"

text \<open>A library whose JWT functions are the two above.\<close>

definition with_jwt :: "codec \<Rightarrow> lib \<Rightarrow> lib" where
  "with_jwt C L = L\<lparr>jwt_sign := issue C, jwt_verify := verify C\<rparr>"

section \<open>Sequences of invoice operations and the ledger of a client\<close>

text \<open>
  An operation on the invoice register, as it reaches a handler: who calls
  (\<^verbatim>\<open>req.user.id\<close>; the plain server does not know it), and with what.
\<close>

datatype op = Create "int option" invoice_body nat | Delete "int option" int

fun step :: "store \<Rightarrow> op \<Rightarrow> store" where
  "step st (Create uid b now) = snd (post_invoices uid b now st)"
| "step st (Delete uid k) = snd (delete_invoice uid k st)"


definition run :: "store \<Rightarrow> op list \<Rightarrow> store" where
  "run st ops = foldl step st ops"


text \<open>The invoices that reference a client id, and the sum of their \<^verbatim>\<open>total\<close> fields
  (\<open>None\<close> when one of them is not a number).\<close>

definition referencing :: "int \<Rightarrow> invoice list \<Rightarrow> invoice list" where
  "referencing cid invs = filter (\<lambda>i. clientId i = cid) invs"

fun sum_totals :: "invoice list \<Rightarrow> int option" where
  "sum_totals [] = Some 0"
| "sum_totals (i # invs) =
     (case (total i, sum_totals invs) of (Num n, Some s) \<Rightarrow> Some (n + s) | _ \<Rightarrow> None)"

text \<open>
  The invariant of the data model for the client id \<open>cid\<close>. Every lookup of the source
  resolves an id to the first client that carries it, so that is the client the ledger
  speaks of: its \<^verbatim>\<open>invoiceCount\<close> is the number of stored invoices referencing \<open>cid\<close>,
  its \<^verbatim>\<open>totalPaid\<close> the sum of their totals.
\<close>

definition ledger_ok :: "int \<Rightarrow> store \<Rightarrow> bool" where
  "ledger_ok cid st =
     (case find (\<lambda>c. c_id c = cid) (clients st) of
        None \<Rightarrow> False
      | Some c \<Rightarrow>
          (case sum_totals (referencing cid (invoices st)) of
             None \<Rightarrow> False
           | Some s \<Rightarrow>
               invoiceCount c = Num (int (length (referencing cid (invoices st)))) \<and>
               totalPaid c = Num s))"






section \<open>Example data\<close>

text \<open>The concrete inputs at which the theorems below are instantiated.\<close>

definition empty_store :: store where
  "empty_store = \<lparr>clients = [], invoices = [], users = [], io_log = []\<rparr>"

definition acme :: client_body where
  "acme = \<lparr>cb_id = None, cb_name = ''Acme'', cb_email = ''a@x.com'', cb_address = ''1 Main Rd''\<rparr>"

definition work :: "int \<Rightarrow> invoice_body" where
  "work t =
     \<lparr>ib_id = None, ib_clientId = 1, ib_freelancerName = ''Ann Lee'',
      ib_freelancerEmail = ''ann@x.com'', ib_freelancerAddress = ''2 Side St'',
      ib_taxPercent = 10, ib_lineItems = [\<lparr>description = ''Work'', quantity = 1, rate = t\<rparr>],
      ib_taxAmount = Num 10, ib_total = Num t\<rparr>"

text \<open>The store after user 1 created the client Acme, which gets the id 1.\<close>

definition acme_store :: store where
  "acme_store = snd (post_clients (Some 1) acme 0 empty_store)"

text \<open>User 1 bills Acme 100 and deletes the invoice again.\<close>

definition billing :: "op list" where
  "billing = [Create (Some 1) (work 100) 1, Delete (Some 1) 1]"

text \<open>User 1 creates two invoices, deletes the first and creates a third, which gets
  \<^verbatim>\<open>length + 1 = 2\<close>, the id of the second; then deletes id 2.\<close>

definition reused_id :: "op list" where
  "reused_id =
     [Create (Some 1) (work 10) 1, Create (Some 1) (work 20) 2, Delete (Some 1) 1,
      Create (Some 1) (work 30) 3, Delete (Some 1) 2]"

text \<open>User 2 creates an invoice that references client 1, which user 1 owns.\<close>

definition foreign_creation :: "op list" where
  "foreign_creation = [Create (Some 2) (work 10) 1]"

text \<open>User 1 creates an invoice whose body has no \<^verbatim>\<open>total\<close> (no validator asks for one).\<close>

definition untotalled :: "op list" where
  "untotalled = [Create (Some 1) ((work 0)\<lparr>ib_total := Undefined\<rparr>) 1]"

text \<open>The store after user 1 billed Acme 100: one invoice, id 1, owner 1.\<close>

definition billed_store :: store where
  "billed_store = snd (post_invoices (Some 1) (work 100) 1 acme_store)"

text \<open>
  Stand-ins for the library parameters, to have concrete values to compute with. They
  are not the libraries: the hash is a reversal; the token codec can write only the
  credentials of one subject with one expiry (Ann's, issued at time 1000 for 24 hours)
  and reads every other string as malformed; an email is a string with an \<^verbatim>\<open>@\<close>;
  normalising an email lowercases it; \<^verbatim>\<open>trim\<close> and \<^verbatim>\<open>escape\<close> change nothing.
\<close>

definition lowercase :: "string \<Rightarrow> string" where
  "lowercase s =
     map (\<lambda>c. case map_of (zip ''ABCDEFGHIJKLMNOPQRSTUVWXYZ'' ''abcdefghijklmnopqrstuvwxyz'') c of
                 None \<Rightarrow> c
               | Some d \<Rightarrow> d) s"

definition ann_payload :: payload where
  "ann_payload = \<lparr>p_id = Some 1, p_email = ''ann@x.com''\<rparr>"

definition demo_codec :: codec where
  "demo_codec =
     \<lparr>encode = (\<lambda>c. if cr_subject c = ann_payload \<and> cr_expiry c = 1000 + 86400
                      then ''ann.'' @ cr_signature c else ''nobody''),
      decode = (\<lambda>s. if take 4 s = ''ann.''
                      then Some \<lparr>cr_subject = ann_payload, cr_expiry = 1000 + 86400,
                                 cr_signature = drop 4 s\<rparr>
                      else None),
      mac = (\<lambda>secret p e. rev secret)\<rparr>"

definition demo_lib :: lib where
  "demo_lib =
     \<lparr>bcrypt_hash = (\<lambda>p rounds salt. salt @ rev p),
      bcrypt_compare = (\<lambda>p h. drop (length h - length p) h = rev p),
      jwt_sign = issue demo_codec,
      jwt_verify = verify demo_codec,
      isEmail = (\<lambda>s. CHR ''@'' \<in> set s),
      normalizeEmail = lowercase,
      isMobilePhone = (\<lambda>s. 7 \<le> length s),
      escape = (\<lambda>s. s),
      trim = (\<lambda>s. s)\<rparr>"

text \<open>Two registrations whose emails differ in letter case only, and logins.\<close>

definition ann :: register_body where
  "ann =
     \<lparr>rb_name = ''Ann Lee'', rb_email = ''Ann@X.com'', rb_password = ''hunter22'',
      rb_contactNumber = ''+14155552671'', rb_address = ''2 Side St''\<rparr>"

definition ann_again :: register_body where
  "ann_again = ann\<lparr>rb_email := ''ann@x.com''\<rparr>"

text \<open>The store after Ann registered with the server of part\_001 at time 1000.\<close>

definition ann_store :: store where
  "ann_store = snd (post_api_register demo_lib ''s3cret'' ann ''salt'' 1000 empty_store)"

definition ann_login :: login_body where
  "ann_login = \<lparr>lb_email = ''ann@x.com'', lb_password = ''hunter22''\<rparr>"

definition ann_wrong_password :: login_body where
  "ann_wrong_password = \<lparr>lb_email = ''ann@x.com'', lb_password = ''hunter23''\<rparr>"

definition bob_login :: login_body where
  "bob_login = \<lparr>lb_email = ''bob@x.com'', lb_password = ''hunter22''\<rparr>"

text \<open>An invoice for a client id that no client carries.\<close>

definition orphan :: invoice_body where
  "orphan = (work 100)\<lparr>ib_clientId := 7\<rparr>"

section \<open>Theorems\<close>

lemmas handler_defs =
  post_invoices_def delete_invoice_def express_post_invoices_def express_delete_invoice_def
  post_clients_def newClient_def newInvoice_def express_newInvoice_def
  readInvoices_def readClients_def readUsers_def writeInvoices_def writeClients_def
  writeUsers_def logged_def applyInvoiceCreated_def applyInvoiceDeleted_def js_add_def js_sub_def
  Let_def

lemmas example_defs =
  empty_store_def acme_def work_def acme_store_def billing_def reused_id_def
  foreign_creation_def untotalled_def billed_store_def ann_def ann_again_def ann_store_def
  ann_login_def ann_wrong_password_def bob_login_def orphan_def ann_payload_def

lemmas demo_defs = demo_lib_def demo_codec_def lowercase_def issue_def issued_def verify_def

lemmas layer_defs =
  api_def app_def use_authenticateToken_def on_get_clients_def on_post_clients_def
  on_delete_clients_def on_get_invoices_def on_post_invoices_def on_delete_invoices_def
  on_get_dashboard_def ended_def

subsection \<open>Lists\<close>

lemma find_None_filter: "find P xs = None \<Longrightarrow> filter (\<lambda>x. \<not> P x) xs = xs"
  by (induction xs) (auto split: if_splits)




lemma find_snoc:
  "find P (xs @ [x]) = (case find P xs of None \<Rightarrow> (if P x then Some x else None) | Some y \<Rightarrow> Some y)"
  by (induction xs) auto

lemma find_None_conj: "find P xs = None \<Longrightarrow> find (\<lambda>x. P x \<and> Q x) xs = None"
  by (induction xs) (auto split: if_splits)

lemma find_None_list_all: "list_all (\<lambda>x. \<not> P x) xs \<Longrightarrow> find P xs = None"
  by (induction xs) auto

lemma split_on_no_separator: "c \<notin> set s \<Longrightarrow> split_on c s = [s]"
  by (induction s) auto

subsection \<open>The ledger of a client over sequences of invoice operations\<close>



lemma ledger_ok_iff:
  "ledger_ok cid st \<longleftrightarrow>
     (\<exists>c s. find (\<lambda>c. c_id c = cid) (clients st) = Some c \<and>
            sum_totals (referencing cid (invoices st)) = Some s \<and>
            invoiceCount c = Num (int (length (referencing cid (invoices st)))) \<and>
            totalPaid c = Num s)"
  by (auto simp: ledger_ok_def split: option.splits)






















text \<open>Where the ledger starts: a client that was just created has a right ledger when
  its id is new and no stored invoice references that id (client ids are
  \<^verbatim>\<open>length + 1\<close> too, and deleting a client leaves its invoices behind).\<close>

lemma ledger_of_new_client:
  assumes "find (\<lambda>c. c_id c = c_id (newClient uid b now (clients st))) (clients st) = None"
    and "referencing (c_id (newClient uid b now (clients st))) (invoices st) = []"
  shows "ledger_ok (c_id (newClient uid b now (clients st))) (snd (post_clients uid b now st))"
  using assms
  by (simp add: ledger_ok_iff post_clients_def readClients_def writeClients_def logged_def Let_def
      find_snoc) (simp add: newClient_def)




subsection \<open>Deleting an invoice the caller does not own\<close>

text \<open>
  C2, as amended. On part\_001, when no stored invoice has the requested id and the
  caller as owner, \<open>delete_invoice\<close> answers 404 "Invoice not found"; the store it
  leaves differs from the one it found only by the two reads in the log, so none of the
  three files is written. On express.js, which has neither callers nor a not-found
  answer, deleting an id that no invoice carries answers 200 \<^verbatim>\<open>{success: true}\<close> and
  rewrites the invoices file with the list it read; the three collections are the same
  afterwards.
\<close>

theorem delete_absent_invoice:
  "(find (\<lambda>i. inv_id i = k \<and> inv_userId i = uid) (invoices st) = None \<longrightarrow>
      delete_invoice uid k st =
        ((404, Error ''Invoice not found''),
         st\<lparr>io_log := io_log st @ [Read INVOICES_FILE, Read CLIENTS_FILE]\<rparr>)) \<and>
   (find (\<lambda>i. inv_id i = k) (invoices st) = None \<longrightarrow>
      express_delete_invoice k st =
        ((200, Success),
         st\<lparr>io_log := io_log st @ [Read INVOICES_FILE, Read CLIENTS_FILE, Write INVOICES_FILE]\<rparr>))"
proof (intro conjI impI)
  assume "find (\<lambda>i. inv_id i = k \<and> inv_userId i = uid) (invoices st) = None"
  then show "delete_invoice uid k st =
      ((404, Error ''Invoice not found''),
       st\<lparr>io_log := io_log st @ [Read INVOICES_FILE, Read CLIENTS_FILE]\<rparr>)"
    by (simp add: delete_invoice_def readInvoices_def readClients_def logged_def)
next
  assume none: "find (\<lambda>i. inv_id i = k) (invoices st) = None"
  from find_None_filter [OF none] none
  show "express_delete_invoice k st =
      ((200, Success),
       st\<lparr>io_log := io_log st @ [Read INVOICES_FILE, Read CLIENTS_FILE, Write INVOICES_FILE]\<rparr>)"
    by (simp add: express_delete_invoice_def readInvoices_def readClients_def writeInvoices_def
        logged_def)
qed

text \<open>In \<open>billed_store\<close> the one invoice has id 1 and owner 1. User 2 asks for the
  deletion of id 1, and somebody asks the plain server for the deletion of id 7.\<close>

theorem delete_absent_invoice_witness:
  "map inv_id (invoices billed_store) = [1] \<and>
   map inv_userId (invoices billed_store) = [Some 1] \<and>
   delete_invoice (Some 2) 1 billed_store =
     ((404, Error ''Invoice not found''),
      billed_store\<lparr>io_log := io_log billed_store @ [Read INVOICES_FILE, Read CLIENTS_FILE]\<rparr>) \<and>
   express_delete_invoice 7 billed_store =
     ((200, Success),
      billed_store\<lparr>io_log := io_log billed_store @
        [Read INVOICES_FILE, Read CLIENTS_FILE, Write INVOICES_FILE]\<rparr>)"
  using delete_absent_invoice [of 1 "Some 2" billed_store] delete_absent_invoice [of 7 None billed_store]
  by (simp add: handler_defs example_defs)

text \<open>C2 as stated fails on express.js: no stored invoice has the id 7, and the
  deletion of id 7 is answered with 200 \<^verbatim>\<open>{success: true}\<close>, not with a not-found
  error.\<close>

theorem delete_absent_invoice_counterexample:
  "map inv_id (invoices billed_store) = [1] \<and>
   fst (express_delete_invoice 7 billed_store) = (200, Success)"
  by (simp add: handler_defs example_defs)

subsection \<open>Verification before data access\<close>

text \<open>
  C3, as amended. On part\_001 a request to one of the seven protected routes (client
  list, create, delete; invoice list, create, delete; dashboard) meets
  \<open>authenticateToken\<close> before its route. When the middleware rejects the request, the
  response is its rejection (401 "Access token required" when the header carries no
  token, 403 "Invalid or expired token" when \<^verbatim>\<open>jwt.verify\<close> fails) and the store is the
  one the request found, log included: no file was read or written. When it accepts,
  the route runs with the verified user as \<^verbatim>\<open>req.user\<close>.
  The routes of express.js verify nothing: they answer a request as they answer the
  same request without an \<^verbatim>\<open>Authorization\<close> header.
\<close>

theorem rejected_before_any_data_access:
  "(authenticateToken L secret now authHeader = Inl r \<longrightarrow>
      api L secret now authHeader req st = (r, st) \<and>
      (r = (401, Error ''Access token required'') \<or> r = (403, Error ''Invalid or expired token''))) \<and>
   (authenticateToken L secret now authHeader = Inr user \<longrightarrow>
      api L secret now authHeader req st = route L now user req st) \<and>
   express_api now authHeader req st = express_api now None req st"
proof (intro conjI impI)
  assume "authenticateToken L secret now authHeader = Inl r"
  then show "api L secret now authHeader req st = (r, st)"
    by (cases req) (simp_all add: layer_defs)
next
  assume "authenticateToken L secret now authHeader = Inl r"
  then show "r = (401, Error ''Access token required'') \<or> r = (403, Error ''Invalid or expired token'')"
    by (auto simp: authenticateToken_def split: option.splits if_splits)
next
  assume "authenticateToken L secret now authHeader = Inr user"
  then show "api L secret now authHeader req st = route L now user req st"
    by (cases req) (simp_all add: layer_defs route_def)
next
  show "express_api now authHeader req st = express_api now None req st"
    by (simp add: express_api_def)
qed

text \<open>A request without a header and a request with a token that does not verify, to
  the dashboard and the invoice deletion; and Ann's request for her invoices, with the
  token of her login.\<close>

theorem rejected_before_any_data_access_witness:
  "authenticateToken demo_lib ''s3cret'' 5 None = Inl (401, Error ''Access token required'') \<and>
   api demo_lib ''s3cret'' 5 None GET_dashboard billed_store =
     ((401, Error ''Access token required''), billed_store) \<and>
   authenticateToken demo_lib ''s3cret'' 5 (Some ''Bearer forged'') =
     Inl (403, Error ''Invalid or expired token'') \<and>
   api demo_lib ''s3cret'' 5 (Some ''Bearer forged'') (DELETE_invoices 1) billed_store =
     ((403, Error ''Invalid or expired token''), billed_store) \<and>
   authenticateToken demo_lib ''s3cret'' 2000 (Some ''Bearer ann.terc3s'') = Inr ann_payload \<and>
   api demo_lib ''s3cret'' 2000 (Some ''Bearer ann.terc3s'') GET_invoices billed_store =
     ((200, Invoices (invoices billed_store)),
      billed_store\<lparr>io_log := io_log billed_store @ [Read INVOICES_FILE]\<rparr>)"
  using rejected_before_any_data_access [of demo_lib "''s3cret''" 5 None _ GET_dashboard billed_store]
    rejected_before_any_data_access [of demo_lib "''s3cret''" 5 "Some ''Bearer forged''" _ "DELETE_invoices 1" billed_store]
    rejected_before_any_data_access [of demo_lib "''s3cret''" 2000 "Some ''Bearer ann.terc3s''" _ GET_invoices
      billed_store ann_payload]
  by (simp add: authenticateToken_def header_token_def demo_defs route_def get_invoices_def
      layer_defs handler_defs example_defs)

text \<open>C3 as stated fails on express.js: a request with no \<^verbatim>\<open>Authorization\<close> header,
  which \<open>authenticateToken\<close> would reject, is answered with the list of all clients
  after reading the clients file.\<close>

theorem unprotected_routes_counterexample:
  "authenticateToken demo_lib ''s3cret'' 5 None = Inl (401, Error ''Access token required'') \<and>
   express_api 5 None GET_clients acme_store =
     ((200, Clients (clients acme_store)), acme_store\<lparr>io_log := io_log acme_store @ [Read CLIENTS_FILE]\<rparr>) \<and>
   map c_name (clients acme_store) = [''Acme'']"
  by (simp add: authenticateToken_def header_token_def demo_defs express_api_def
      express_get_clients_def handler_defs example_defs)

subsection \<open>Registration\<close>

text \<open>The three outcomes of \<^verbatim>\<open>POST /api/register\<close> on part\_001.\<close>

lemma register_free_email:
  "valid_register L b \<Longrightarrow> find (\<lambda>u. u_email u = normalizeEmail L (rb_email b)) (users st) = None \<Longrightarrow>
   post_api_register L secret b salt now st =
     ((201, Session (jwt_sign L \<lparr>p_id = Some (int (length (users st)) + 1),
                                p_email = normalizeEmail L (rb_email b)\<rparr> secret expiresIn_24h now)
              (Some (int (length (users st)) + 1)) (normalizeEmail L (rb_email b))
              (escape L (trim L (rb_name b)))),
      st\<lparr>users := users st @ [newUser L (sanitized_register L b) salt now (users st)],
         io_log := io_log st @ [Read USERS_FILE, Write USERS_FILE]\<rparr>)"
  by (simp add: post_api_register_def register_def readUsers_def writeUsers_def logged_def
      sanitized_register_def newUser_def Let_def)

lemma register_taken_email:
  "valid_register L b \<Longrightarrow> find (\<lambda>u. u_email u = normalizeEmail L (rb_email b)) (users st) = Some u \<Longrightarrow>
   post_api_register L secret b salt now st =
     ((409, Error ''User already exists''), st\<lparr>io_log := io_log st @ [Read USERS_FILE]\<rparr>)"
  by (simp add: post_api_register_def register_def readUsers_def logged_def
      sanitized_register_def Let_def)

lemma register_invalid:
  "\<not> valid_register L b \<Longrightarrow> post_api_register L secret b salt now st = ((400, ValidationFailed), st)"
  by (simp add: post_api_register_def)

text \<open>The two outcomes of \<^verbatim>\<open>POST /api/register\<close> on express.js.\<close>

lemma express_register_free_email:
  "find (\<lambda>u. u_email u = rb_email b) (users st) = None \<Longrightarrow>
   express_register b st =
     ((200, Message True ''Registration successful''),
      st\<lparr>users := users st @ [express_newUser b],
         io_log := io_log st @ [Read USERS_FILE, Write USERS_FILE]\<rparr>)"
  by (simp add: express_register_def readUsers_def writeUsers_def logged_def)

lemma express_register_taken_email:
  "find (\<lambda>u. u_email u = rb_email b) (users st) = Some u \<Longrightarrow>
   express_register b st =
     ((400, Message False ''User already exists''), st\<lparr>io_log := io_log st @ [Read USERS_FILE]\<rparr>)"
  by (simp add: express_register_def readUsers_def logged_def)

text \<open>
  C4, as amended. On part\_001 a registration that passes validation with an email (as
  normalised) that no stored user has appends exactly one user record, whose
  \<^verbatim>\<open>password\<close> field is \<^verbatim>\<open>bcrypt.hash(password, 10)\<close> of the raw password; the other fields
  come from the other fields of the body. Every other registration leaves the users
  unchanged, and none touches clients or invoices. So the raw password reaches the users
  file only through \<open>bcrypt_hash\<close>. (That bcrypt is one-way and salted is a property
  of the library, which is a parameter here.) The register of express.js, when the
  email as sent is not stored yet, appends a record whose \<^verbatim>\<open>password\<close> field is the
  password as sent.
\<close>

theorem register_stores_the_hash:
  "(valid_register L b \<and> find (\<lambda>u. u_email u = normalizeEmail L (rb_email b)) (users st) = None \<longrightarrow>
      snd (post_api_register L secret b salt now st) =
        st\<lparr>users := users st @
              [\<lparr>u_id = Some (int (length (users st)) + 1),
                u_name = escape L (trim L (rb_name b)),
                u_email = normalizeEmail L (rb_email b),
                u_password = bcrypt_hash L (rb_password b) 10 salt,
                u_contactNumber = rb_contactNumber b,
                u_address = escape L (trim L (rb_address b)),
                u_createdAt = Some now\<rparr>],
           io_log := io_log st @ [Read USERS_FILE, Write USERS_FILE]\<rparr>) \<and>
   (\<not> (valid_register L b \<and> find (\<lambda>u. u_email u = normalizeEmail L (rb_email b)) (users st) = None) \<longrightarrow>
      users (snd (post_api_register L secret b salt now st)) = users st) \<and>
   clients (snd (post_api_register L secret b salt now st)) = clients st \<and>
   invoices (snd (post_api_register L secret b salt now st)) = invoices st \<and>
   (find (\<lambda>u. u_email u = rb_email b) (users st) = None \<longrightarrow>
      users (snd (express_register b st)) =
        users st @
          [\<lparr>u_id = None, u_name = rb_name b, u_email = rb_email b, u_password = rb_password b,
            u_contactNumber = rb_contactNumber b, u_address = rb_address b, u_createdAt = None\<rparr>])"
proof -
  have express: "find (\<lambda>u. u_email u = rb_email b) (users st) = None \<longrightarrow>
      users (snd (express_register b st)) =
        users st @
          [\<lparr>u_id = None, u_name = rb_name b, u_email = rb_email b, u_password = rb_password b,
            u_contactNumber = rb_contactNumber b, u_address = rb_address b, u_createdAt = None\<rparr>]"
    by (simp add: express_register_free_email express_newUser_def)
  show ?thesis
  proof (cases "valid_register L b")
    case False
    with express show ?thesis by (simp add: register_invalid)
  next
    case True
    show ?thesis
    proof (cases "find (\<lambda>u. u_email u = normalizeEmail L (rb_email b)) (users st)")
      case None
      with True express show ?thesis
        by (simp add: register_free_email newUser_def sanitized_register_def)
    next
      case (Some u)
      with True express show ?thesis by (simp add: register_taken_email)
    qed
  qed
qed

text \<open>Ann registers; then she tries again with the lowercase spelling of her email.\<close>

theorem register_stores_the_hash_witness:
  "valid_register demo_lib ann \<and>
   users ann_store =
     [\<lparr>u_id = Some 1, u_name = ''Ann Lee'', u_email = ''ann@x.com'',
       u_password = bcrypt_hash demo_lib ''hunter22'' 10 ''salt'',
       u_contactNumber = ''+14155552671'', u_address = ''2 Side St'', u_createdAt = Some 1000\<rparr>] \<and>
   io_log ann_store = [Read USERS_FILE, Write USERS_FILE] \<and>
   users (snd (post_api_register demo_lib ''s3cret'' ann_again ''pepper'' 2000 ann_store)) = users ann_store \<and>
   users (snd (express_register ann empty_store)) =
     [\<lparr>u_id = None, u_name = ''Ann Lee'', u_email = ''Ann@X.com'', u_password = ''hunter22'',
       u_contactNumber = ''+14155552671'', u_address = ''2 Side St'', u_createdAt = None\<rparr>]"
  using register_stores_the_hash [of demo_lib ann empty_store "''s3cret''" "''salt''" 1000]
    register_stores_the_hash [of demo_lib ann_again ann_store "''s3cret''" "''pepper''" 2000]
  by (simp add: valid_register_def isLength_def demo_defs example_defs post_api_register_def
      register_def sanitized_register_def newUser_def handler_defs express_register_def
      express_newUser_def)

text \<open>C4 as stated fails on express.js: after Ann's registration the stored password
  field is her raw password.\<close>

theorem raw_password_stored_counterexample:
  "rb_password ann = ''hunter22'' \<and>
   map u_password (users (snd (express_register ann empty_store))) = [''hunter22'']"
  by (simp add: express_register_def express_newUser_def handler_defs example_defs)

text \<open>
  C5, as amended. On part\_001, let two registration bodies pass validation and have
  emails with the same normal form under \<^verbatim>\<open>normalizeEmail\<close> (as emails that differ only
  in letter case have, the sanitizer lowercasing them), and let the first registration
  succeed with 201. Then the second, on the store the first left, is answered 409 "User
  already exists" and changes nothing but the log, by one read of the users file. The
  register of express.js compares the emails as sent: it answers 400 "User already
  exists", changing nothing, when a stored user has exactly the email sent, and of two
  registrations whose emails as sent differ the second succeeds if nobody had its email
  before.
\<close>

theorem same_email_registered_twice:
  "(valid_register L b1 \<and> valid_register L b2 \<and>
    normalizeEmail L (rb_email b1) = normalizeEmail L (rb_email b2) \<and>
    post_api_register L secret b1 salt1 t1 st = (r1, st1) \<and> fst r1 = 201 \<longrightarrow>
      post_api_register L secret b2 salt2 t2 st1 =
        ((409, Error ''User already exists''), st1\<lparr>io_log := io_log st1 @ [Read USERS_FILE]\<rparr>)) \<and>
   (find (\<lambda>u. u_email u = rb_email b2) (users st) = Some u \<longrightarrow>
      express_register b2 st =
        ((400, Message False ''User already exists''), st\<lparr>io_log := io_log st @ [Read USERS_FILE]\<rparr>)) \<and>
   (find (\<lambda>u. u_email u = rb_email b2) (users st) = None \<and> rb_email b1 \<noteq> rb_email b2 \<longrightarrow>
      fst (express_register b2 (snd (express_register b1 st))) =
        (200, Message True ''Registration successful''))"
proof (intro conjI impI; (elim conjE)?)
  assume "find (\<lambda>u. u_email u = rb_email b2) (users st) = Some u"
  then show "express_register b2 st =
      ((400, Message False ''User already exists''), st\<lparr>io_log := io_log st @ [Read USERS_FILE]\<rparr>)"
    by (rule express_register_taken_email)
next
  assume free: "find (\<lambda>u. u_email u = rb_email b2) (users st) = None"
    and other: "rb_email b1 \<noteq> rb_email b2"
  have "find (\<lambda>u. u_email u = rb_email b2) (users (snd (express_register b1 st))) = None"
  proof (cases "find (\<lambda>u. u_email u = rb_email b1) (users st)")
    case None
    with free other show ?thesis
      by (simp add: express_register_free_email find_snoc express_newUser_def)
  next
    case (Some v)
    with free show ?thesis by (simp add: express_register_taken_email)
  qed
  then show "fst (express_register b2 (snd (express_register b1 st))) =
      (200, Message True ''Registration successful'')"
    by (simp add: express_register_free_email)
next
  assume v1: "valid_register L b1" and v2: "valid_register L b2"
    and same: "normalizeEmail L (rb_email b1) = normalizeEmail L (rb_email b2)"
    and first: "post_api_register L secret b1 salt1 t1 st = (r1, st1)" and ok: "fst r1 = 201"
  let ?e = "normalizeEmail L (rb_email b1)"
  have free: "find (\<lambda>u. u_email u = ?e) (users st) = None"
  proof (cases "find (\<lambda>u. u_email u = ?e) (users st)")
    case (Some u)
    from register_taken_email [OF v1 Some, of secret salt1 t1] first ok show ?thesis by auto
  qed simp
  from register_free_email [OF v1 free] first
  have "users st1 = users st @ [newUser L (sanitized_register L b1) salt1 t1 (users st)]"
    by auto
  with free have "find (\<lambda>u. u_email u = ?e) (users st1) =
      Some (newUser L (sanitized_register L b1) salt1 t1 (users st))"
    by (simp add: find_snoc newUser_def sanitized_register_def)
  with same register_taken_email [OF v2, of st1]
  show "post_api_register L secret b2 salt2 t2 st1 =
      ((409, Error ''User already exists''), st1\<lparr>io_log := io_log st1 @ [Read USERS_FILE]\<rparr>)"
    by simp
qed

text \<open>Ann registers as \<^verbatim>\<open>Ann@X.com\<close> and then as \<^verbatim>\<open>ann@x.com\<close>.\<close>

theorem same_email_registered_twice_witness:
  "rb_email ann = ''Ann@X.com'' \<and> rb_email ann_again = ''ann@x.com'' \<and>
   valid_register demo_lib ann \<and> valid_register demo_lib ann_again \<and>
   normalizeEmail demo_lib (rb_email ann) = normalizeEmail demo_lib (rb_email ann_again) \<and>
   fst (fst (post_api_register demo_lib ''s3cret'' ann ''salt'' 1000 empty_store)) = 201 \<and>
   post_api_register demo_lib ''s3cret'' ann_again ''pepper'' 2000 ann_store =
     ((409, Error ''User already exists''), ann_store\<lparr>io_log := io_log ann_store @ [Read USERS_FILE]\<rparr>) \<and>
   fst (express_register ann_again ann_store) = (400, Message False ''User already exists'') \<and>
   fst (express_register ann_again (snd (express_register ann empty_store))) =
     (200, Message True ''Registration successful'')"
  using same_email_registered_twice [of demo_lib ann ann_again "''s3cret''" "''salt''" 1000 empty_store
      "fst (post_api_register demo_lib ''s3cret'' ann ''salt'' 1000 empty_store)" ann_store "''pepper''" 2000]
    same_email_registered_twice [of demo_lib ann ann_again "''s3cret''" "''salt''" 1000 ann_store
      "fst (post_api_register demo_lib ''s3cret'' ann ''salt'' 1000 ann_store)"
      "snd (post_api_register demo_lib ''s3cret'' ann ''salt'' 1000 ann_store)" "''pepper''" 2000
      "hd (users ann_store)"]
  by (simp add: valid_register_def isLength_def demo_defs example_defs post_api_register_def
      register_def sanitized_register_def newUser_def handler_defs express_register_def
      express_newUser_def)

text \<open>C5 as stated fails on express.js: both registrations succeed and both users are
  stored.\<close>

theorem case_variants_both_registered_counterexample:
  "rb_email ann = ''Ann@X.com'' \<and> rb_email ann_again = ''ann@x.com'' \<and>
   fst (express_register ann_again (snd (express_register ann empty_store))) =
     (200, Message True ''Registration successful'') \<and>
   map u_email (users (snd (express_register ann_again (snd (express_register ann empty_store))))) =
     [''Ann@X.com'', ''ann@x.com'']"
  by (simp add: express_register_def express_newUser_def handler_defs example_defs)

subsection \<open>Login\<close>

text \<open>
  C6. A login with an email that no stored user has and a login with the email of a
  stored user whose password does not verify are answered alike, and leave the same
  trace. On part\_001 the answer to a body that passes validation is 401
  \<^verbatim>\<open>{error: 'Invalid credentials'}\<close> after one read of the users file in both cases (and
  400 "Validation failed" before any read, in both cases, to a body that does not). On
  express.js, where the password sent is compared with the stored one, it is 401
  \<^verbatim>\<open>{success: false, message: 'Invalid credentials'}\<close> in both cases.
\<close>

theorem login_failures_indistinguishable:
  "(find (\<lambda>u. u_email u = normalizeEmail L (lb_email b1)) (users st1) = None \<longrightarrow>
      post_api_login L secret b1 t1 st1 =
        (if valid_login L b1
         then ((401, Error ''Invalid credentials''), st1\<lparr>io_log := io_log st1 @ [Read USERS_FILE]\<rparr>)
         else ((400, ValidationFailed), st1))) \<and>
   (find (\<lambda>u. u_email u = normalizeEmail L (lb_email b2)) (users st2) = Some u \<and>
    \<not> bcrypt_compare L (lb_password b2) (u_password u) \<longrightarrow>
      post_api_login L secret b2 t2 st2 =
        (if valid_login L b2
         then ((401, Error ''Invalid credentials''), st2\<lparr>io_log := io_log st2 @ [Read USERS_FILE]\<rparr>)
         else ((400, ValidationFailed), st2))) \<and>
   (find (\<lambda>u. u_email u = lb_email b1) (users st1) = None \<longrightarrow>
      express_login b1 st1 =
        ((401, Message False ''Invalid credentials''), st1\<lparr>io_log := io_log st1 @ [Read USERS_FILE]\<rparr>)) \<and>
   (find (\<lambda>u. u_email u = lb_email b2) (users st2) = Some u \<and>
    list_all (\<lambda>u. \<not> (u_email u = lb_email b2 \<and> u_password u = lb_password b2)) (users st2) \<longrightarrow>
      express_login b2 st2 =
        ((401, Message False ''Invalid credentials''), st2\<lparr>io_log := io_log st2 @ [Read USERS_FILE]\<rparr>))"
proof (intro conjI impI; (elim conjE)?)
  assume "find (\<lambda>u. u_email u = normalizeEmail L (lb_email b1)) (users st1) = None"
  then show "post_api_login L secret b1 t1 st1 =
      (if valid_login L b1
       then ((401, Error ''Invalid credentials''), st1\<lparr>io_log := io_log st1 @ [Read USERS_FILE]\<rparr>)
       else ((400, ValidationFailed), st1))"
    by (simp add: post_api_login_def login_def sanitized_login_def readUsers_def logged_def)
next
  assume "find (\<lambda>u. u_email u = normalizeEmail L (lb_email b2)) (users st2) = Some u"
    "\<not> bcrypt_compare L (lb_password b2) (u_password u)"
  then show "post_api_login L secret b2 t2 st2 =
      (if valid_login L b2
       then ((401, Error ''Invalid credentials''), st2\<lparr>io_log := io_log st2 @ [Read USERS_FILE]\<rparr>)
       else ((400, ValidationFailed), st2))"
    by (simp add: post_api_login_def login_def sanitized_login_def readUsers_def logged_def)
next
  assume "find (\<lambda>u. u_email u = lb_email b1) (users st1) = None"
  from find_None_conj [OF this, of "\<lambda>u. u_password u = lb_password b1"]
  show "express_login b1 st1 =
      ((401, Message False ''Invalid credentials''), st1\<lparr>io_log := io_log st1 @ [Read USERS_FILE]\<rparr>)"
    by (simp add: express_login_def readUsers_def logged_def)
next
  assume "list_all (\<lambda>u. \<not> (u_email u = lb_email b2 \<and> u_password u = lb_password b2)) (users st2)"
  from find_None_list_all [OF this]
  show "express_login b2 st2 =
      ((401, Message False ''Invalid credentials''), st2\<lparr>io_log := io_log st2 @ [Read USERS_FILE]\<rparr>)"
    by (simp add: express_login_def readUsers_def logged_def)
qed

text \<open>Ann is registered. Bob, who is not, tries to log in, and somebody tries Ann's
  email with a wrong password: the responses are the same, and Ann's own login
  succeeds.\<close>

theorem login_failures_indistinguishable_witness:
  "map u_email (users ann_store) = [''ann@x.com''] \<and>
   valid_login demo_lib bob_login \<and> valid_login demo_lib ann_wrong_password \<and>
   \<not> bcrypt_compare demo_lib (lb_password ann_wrong_password) (u_password (hd (users ann_store))) \<and>
   fst (post_api_login demo_lib ''s3cret'' bob_login 2000 ann_store) = (401, Error ''Invalid credentials'') \<and>
   fst (post_api_login demo_lib ''s3cret'' ann_wrong_password 2000 ann_store) =
     (401, Error ''Invalid credentials'') \<and>
   fst (express_login bob_login ann_store) = (401, Message False ''Invalid credentials'') \<and>
   fst (express_login ann_wrong_password ann_store) = (401, Message False ''Invalid credentials'') \<and>
   fst (fst (post_api_login demo_lib ''s3cret'' ann_login 2000 ann_store)) = 200"
  using login_failures_indistinguishable [of demo_lib bob_login ann_store "''s3cret''" 2000
      ann_wrong_password ann_store "hd (users ann_store)" 2000]
  by (simp add: valid_login_def isLength_def demo_defs example_defs post_api_register_def
      register_def sanitized_register_def newUser_def handler_defs valid_register_def
      post_api_login_def login_def sanitized_login_def express_login_def)

subsection \<open>The client list\<close>

text \<open>
  C7 fails on the code. \<^verbatim>\<open>GET /api/clients\<close> of part\_001 answers with the whole clients
  file, although the invoice list, the dashboard and the client deletion of the same
  server all compare \<^verbatim>\<open>userId\<close> with \<^verbatim>\<open>req.user.id\<close>. Here the only client belongs to
  user 1, and user 2, once verified, gets it. (express.js has no owners and lists all
  clients as well.)
\<close>

theorem client_list_not_scoped_to_caller:
  "map c_userId (clients acme_store) = [Some 1] \<and>
   fst (route demo_lib 5 \<lparr>p_id = Some 2, p_email = ''bob@x.com''\<rparr> GET_clients acme_store) =
     (200, Clients (clients acme_store)) \<and>
   fst (express_api 5 None GET_clients acme_store) = (200, Clients (clients acme_store))"
  by (simp add: route_def get_clients_def express_api_def express_get_clients_def
      handler_defs example_defs)

subsection \<open>Creating an invoice\<close>

text \<open>
  C8, as amended. Neither server checks that \<^verbatim>\<open>clientId\<close> references a client. On
  part\_001 every request that passes the validation chain (which asks of
  \<^verbatim>\<open>clientId\<close> only that it be an integer from 1 up) is answered 201 with the new
  invoice, which is appended to the invoices; when no client has that id and the caller
  as owner, the clients are left as they were. express.js does the same without
  validation, answering 200 and looking the client up by id alone. On both, the new
  invoice's id is the number of stored invoices plus one when the body carries no
  \<^verbatim>\<open>id\<close> of its own.
\<close>

theorem invoice_created_without_client_check:
  "(valid_invoice L b \<longrightarrow>
      fst (route L now user (POST_invoices b) st) =
        (201, InvoiceCreated (newInvoice (p_id user) (sanitized_invoice L b) now (invoices st))) \<and>
      invoices (snd (route L now user (POST_invoices b) st)) =
        invoices st @ [newInvoice (p_id user) (sanitized_invoice L b) now (invoices st)] \<and>
      users (snd (route L now user (POST_invoices b) st)) = users st \<and>
      (find (\<lambda>c. c_id c = ib_clientId b \<and> c_userId c = p_id user) (clients st) = None \<longrightarrow>
         clients (snd (route L now user (POST_invoices b) st)) = clients st) \<and>
      (ib_id b = None \<longrightarrow>
         inv_id (newInvoice (p_id user) (sanitized_invoice L b) now (invoices st)) =
           int (length (invoices st)) + 1)) \<and>
   fst (express_api now authHeader (POST_invoices b) st) =
     (200, InvoiceCreated (express_newInvoice b now (invoices st))) \<and>
   invoices (snd (express_api now authHeader (POST_invoices b) st)) =
     invoices st @ [express_newInvoice b now (invoices st)] \<and>
   users (snd (express_api now authHeader (POST_invoices b) st)) = users st \<and>
   (find (\<lambda>c. c_id c = ib_clientId b) (clients st) = None \<longrightarrow>
      clients (snd (express_api now authHeader (POST_invoices b) st)) = clients st) \<and>
   (ib_id b = None \<longrightarrow>
      inv_id (express_newInvoice b now (invoices st)) = int (length (invoices st)) + 1)"
  by (simp add: route_def express_api_def post_invoices_def express_post_invoices_def
      readInvoices_def readClients_def writeInvoices_def writeClients_def logged_def Let_def
      newInvoice_def express_newInvoice_def sanitized_invoice_def split: option.splits)

text \<open>An invoice for the client id 7, which no client carries.\<close>

theorem invoice_created_without_client_check_witness:
  "valid_invoice demo_lib orphan \<and> ib_clientId orphan = 7 \<and> ib_id orphan = None \<and>
   map c_id (clients billed_store) = [1] \<and> map inv_id (invoices billed_store) = [1] \<and>
   fst (fst (route demo_lib 5 ann_payload (POST_invoices orphan) billed_store)) = 201 \<and>
   map inv_id (invoices (snd (route demo_lib 5 ann_payload (POST_invoices orphan) billed_store))) = [1, 2] \<and>
   map clientId (invoices (snd (route demo_lib 5 ann_payload (POST_invoices orphan) billed_store))) = [1, 7] \<and>
   clients (snd (route demo_lib 5 ann_payload (POST_invoices orphan) billed_store)) = clients billed_store \<and>
   clients (snd (express_api 5 None (POST_invoices orphan) billed_store)) = clients billed_store"
  using invoice_created_without_client_check [of demo_lib orphan 5 ann_payload billed_store None]
  by (simp add: valid_invoice_def isLength_def demo_defs example_defs route_def express_api_def
      sanitized_invoice_def handler_defs)

text \<open>C8 as stated fails on both servers: the request for the missing client 7 is not
  rejected, and the invoice is stored.\<close>

theorem invoice_for_missing_client_counterexample:
  "valid_invoice demo_lib orphan \<and> ib_clientId orphan = 7 \<and>
   map c_id (clients billed_store) = [1] \<and>
   fst (fst (route demo_lib 5 ann_payload (POST_invoices orphan) billed_store)) = 201 \<and>
   map clientId (invoices (snd (route demo_lib 5 ann_payload (POST_invoices orphan) billed_store))) = [1, 7] \<and>
   fst (fst (express_api 5 None (POST_invoices orphan) billed_store)) = 200 \<and>
   map clientId (invoices (snd (express_api 5 None (POST_invoices orphan) billed_store))) = [1, 7]"
  by (simp add: valid_invoice_def isLength_def demo_defs example_defs route_def express_api_def
      sanitized_invoice_def handler_defs)

subsection \<open>The lifetime of a credential\<close>

lemma header_token_Bearer: "CHR '' '' \<notin> set t \<Longrightarrow> header_token (Some (''Bearer '' @ t)) = Some t"
  by (simp add: header_token_def split_on_no_separator)

lemmas header_token_Bearer' = header_token_Bearer [simplified]

lemma login_session_token:
  assumes "post_api_login L secret b now st = ((200, Session token uid e nm), st')"
  shows "token = jwt_sign L \<lparr>p_id = uid, p_email = e\<rparr> secret expiresIn_24h now"
  using assms
  by (auto simp: post_api_login_def login_def readUsers_def Let_def
      split: if_splits option.splits)

text \<open>
  C9, with \<^verbatim>\<open>jwt.sign\<close> and \<^verbatim>\<open>jwt.verify\<close> as the specification describes them. Let a
  login at time \<open>t0\<close> (in seconds) succeed and return a token, which the codec reads
  back as the credential that was issued and which is one non-empty word. Then the
  token is the one issued for the user's id and email with \<^verbatim>\<open>expiresIn: '24h'\<close>, its
  expiry is \<open>t0\<close> plus 24 hours, \<open>authenticateToken\<close> accepts it one hour after the
  login with that id and email as \<^verbatim>\<open>req.user\<close>, and rejects it 25 hours after the login
  with 403 "Invalid or expired token". A token that the codec cannot read, or whose
  signature is not the one the secret gives, is rejected with the same response at any
  time.
\<close>

theorem credential_valid_for_24h:
  "(post_api_login (with_jwt C L) secret b t0 st = ((200, Session token uid e nm), st') \<and>
    decode C token = Some (issued C \<lparr>p_id = uid, p_email = e\<rparr> secret expiresIn_24h t0) \<and>
    CHR '' '' \<notin> set token \<and> token \<noteq> [] \<longrightarrow>
      token = issue C \<lparr>p_id = uid, p_email = e\<rparr> secret expiresIn_24h t0 \<and>
      map_option cr_expiry (decode C token) = Some (t0 + 24 * 3600) \<and>
      authenticateToken (with_jwt C L) secret (t0 + 1 * 3600) (Some (''Bearer '' @ token)) =
        Inr \<lparr>p_id = uid, p_email = e\<rparr> \<and>
      authenticateToken (with_jwt C L) secret (t0 + 25 * 3600) (Some (''Bearer '' @ token)) =
        Inl (403, Error ''Invalid or expired token'')) \<and>
   (CHR '' '' \<notin> set t \<and> t \<noteq> [] \<and>
    (decode C t = None \<or>
     (\<exists>c. decode C t = Some c \<and> cr_signature c \<noteq> mac C secret (cr_subject c) (cr_expiry c))) \<longrightarrow>
      authenticateToken (with_jwt C L) secret now (Some (''Bearer '' @ t)) =
        Inl (403, Error ''Invalid or expired token''))"
proof (intro conjI impI; elim conjE)
  assume login: "post_api_login (with_jwt C L) secret b t0 st = ((200, Session token uid e nm), st')"
    and dec: "decode C token = Some (issued C \<lparr>p_id = uid, p_email = e\<rparr> secret expiresIn_24h t0)"
    and word: "CHR '' '' \<notin> set token" "token \<noteq> []"
  from login_session_token [OF login]
  show "token = issue C \<lparr>p_id = uid, p_email = e\<rparr> secret expiresIn_24h t0"
    by (simp add: with_jwt_def)
  show "map_option cr_expiry (decode C token) = Some (t0 + 24 * 3600)"
    by (simp add: dec issued_def expiresIn_24h_def)
  show "authenticateToken (with_jwt C L) secret (t0 + 1 * 3600) (Some (''Bearer '' @ token)) =
      Inr \<lparr>p_id = uid, p_email = e\<rparr>"
    using word dec
    by (simp add: authenticateToken_def header_token_Bearer' with_jwt_def verify_def issued_def
        expiresIn_24h_def)
  show "authenticateToken (with_jwt C L) secret (t0 + 25 * 3600) (Some (''Bearer '' @ token)) =
      Inl (403, Error ''Invalid or expired token'')"
    using word dec
    by (simp add: authenticateToken_def header_token_Bearer' with_jwt_def verify_def issued_def
        expiresIn_24h_def)
next
  assume "CHR '' '' \<notin> set t" "t \<noteq> []"
    "decode C t = None \<or>
     (\<exists>c. decode C t = Some c \<and> cr_signature c \<noteq> mac C secret (cr_subject c) (cr_expiry c))"
  then show "authenticateToken (with_jwt C L) secret now (Some (''Bearer '' @ t)) =
      Inl (403, Error ''Invalid or expired token'')"
    by (auto simp: authenticateToken_def header_token_Bearer' with_jwt_def verify_def)
qed

text \<open>Ann logs in at time 1000.\<close>

theorem credential_valid_for_24h_witness:
  "post_api_login (with_jwt demo_codec demo_lib) ''s3cret'' ann_login 1000 ann_store =
     ((200, Session ''ann.terc3s'' (Some 1) ''ann@x.com'' ''Ann Lee''),
      ann_store\<lparr>io_log := io_log ann_store @ [Read USERS_FILE]\<rparr>) \<and>
   decode demo_codec ''ann.terc3s'' =
     Some (issued demo_codec \<lparr>p_id = Some 1, p_email = ''ann@x.com''\<rparr> ''s3cret'' expiresIn_24h 1000) \<and>
   authenticateToken (with_jwt demo_codec demo_lib) ''s3cret'' (1000 + 1 * 3600)
     (Some ''Bearer ann.terc3s'') = Inr \<lparr>p_id = Some 1, p_email = ''ann@x.com''\<rparr> \<and>
   authenticateToken (with_jwt demo_codec demo_lib) ''s3cret'' (1000 + 25 * 3600)
     (Some ''Bearer ann.terc3s'') = Inl (403, Error ''Invalid or expired token'') \<and>
   decode demo_codec ''forged'' = None \<and>
   authenticateToken (with_jwt demo_codec demo_lib) ''s3cret'' 1000 (Some ''Bearer forged'') =
     Inl (403, Error ''Invalid or expired token'') \<and>
   authenticateToken (with_jwt demo_codec demo_lib) ''s3cret'' 1000 (Some ''Bearer ann.forged'') =
     Inl (403, Error ''Invalid or expired token'')"
  using credential_valid_for_24h [of demo_codec demo_lib "''s3cret''" ann_login 1000 ann_store
      "''ann.terc3s''" "Some 1" "''ann@x.com''" "''Ann Lee''"
      "ann_store\<lparr>io_log := io_log ann_store @ [Read USERS_FILE]\<rparr>" "''forged''" 1000]
    credential_valid_for_24h [of demo_codec demo_lib "''s3cret''" ann_login 1000 ann_store
      "''ann.terc3s''" "Some 1" "''ann@x.com''" "''Ann Lee''"
      "ann_store\<lparr>io_log := io_log ann_store @ [Read USERS_FILE]\<rparr>" "''ann.forged''" 1000]
  by (simp add: valid_login_def isLength_def demo_defs example_defs post_api_register_def
      register_def sanitized_register_def newUser_def handler_defs valid_register_def
      post_api_login_def login_def sanitized_login_def with_jwt_def expiresIn_24h_def)

subsection \<open>The dashboard\<close>

text \<open>
  C10. On both servers the dashboard reads the clients file and the invoices file and
  writes nothing: the store afterwards is the store before with the two reads logged.
  Its statistics are those of the caller's clients and invoices (of all of them on
  express.js), and the summary of a client is its name, its email and its stored
  \<^verbatim>\<open>invoiceCount\<close> and \<^verbatim>\<open>totalPaid\<close>, with 0 for a field that is absent or
  \<^verbatim>\<open>null\<close>: \<open>clientSummary\<close> is a function of the clients alone, whatever the invoices.
\<close>

theorem dashboard_reads_only:
  "dashboard uid st =
     ((200, Stats (stats_of (filter (\<lambda>c. c_userId c = uid) (clients st))
                            (filter (\<lambda>i. inv_userId i = uid) (invoices st)))),
      st\<lparr>io_log := io_log st @ [Read CLIENTS_FILE, Read INVOICES_FILE]\<rparr>) \<and>
   express_dashboard st =
     ((200, Stats (stats_of (clients st) (invoices st))),
      st\<lparr>io_log := io_log st @ [Read CLIENTS_FILE, Read INVOICES_FILE]\<rparr>) \<and>
   clientSummary (stats_of cls invs) =
     map (\<lambda>c. \<lparr>s_name = c_name c, s_email = c_email c,
               s_invoiceCount = or_zero (invoiceCount c), s_totalPaid = or_zero (totalPaid c)\<rparr>) cls \<and>
   or_zero Undefined = 0 \<and> or_zero Null = 0 \<and> or_zero (Num n) = n"
  by (simp add: dashboard_def express_dashboard_def stats_of_def summary_of_def readClients_def
      readInvoices_def logged_def Let_def)

text \<open>After \<open>foreign_creation\<close> an invoice references Acme and Acme's stored count is
  0: the dashboard of user 1 reports 0. After \<open>untotalled\<close> Acme's stored
  \<^verbatim>\<open>totalPaid\<close> is \<^verbatim>\<open>null\<close>: the summary reports 0.\<close>

theorem dashboard_reads_only_witness:
  "dashboard (Some 1) (run acme_store foreign_creation) =
     ((200, Stats \<lparr>totalClients = 1, totalInvoices = 0, totalTax = 0, totalRevenue = 0,
                   clientSummary = [\<lparr>s_name = ''Acme'', s_email = ''a@x.com'',
                                     s_invoiceCount = 0, s_totalPaid = 0\<rparr>]\<rparr>),
      (run acme_store foreign_creation)
        \<lparr>io_log := io_log (run acme_store foreign_creation) @ [Read CLIENTS_FILE, Read INVOICES_FILE]\<rparr>) \<and>
   clientSummary (stats_of (clients (run acme_store untotalled)) []) =
     [\<lparr>s_name = ''Acme'', s_email = ''a@x.com'', s_invoiceCount = 1, s_totalPaid = 0\<rparr>]"
  using dashboard_reads_only [of "Some 1" "run acme_store foreign_creation"
      "clients (run acme_store untotalled)" "[]" 0]
  by (simp add: run_def dashboard_def stats_of_def summary_of_def handler_defs example_defs)

end
